theory Spec2Isabelle
  imports Main "HOL-Library.Word"
begin

unbundle bit_operations_syntax

section \<open>C declarations as data\<close>

text \<open>
  The driver's protocol.h and context.h hold declarations only: macros, enumerations and
  structures. They are embedded as values of the types below, and the rules C applies to
  them (numbering of enumerators, size, alignment and member offsets of aggregates) are
  the functions over those values.
\<close>

subsection \<open>Enumerations\<close>

text \<open>
  An enumerator is a name with an optional explicit value. An enumerator without one
  takes the value of its predecessor plus one; the first takes 0.
\<close>

type_synonym enum_decl = "(string \<times> int option) list"

fun enum_values :: "int \<Rightarrow> enum_decl \<Rightarrow> (string \<times> int) list" where
  "enum_values nxt [] = []"
| "enum_values nxt ((n, Some v) # es) = (n, v) # enum_values (v + 1) es"
| "enum_values nxt ((n, None) # es) = (n, nxt) # enum_values (nxt + 1) es"

definition enum_constants :: "enum_decl \<Rightarrow> (string \<times> int) list" where
  "enum_constants d = enum_values 0 d"

subsection \<open>Types, sizes, alignments, offsets\<close>

text \<open>
  \<open>Struct True\<close> is a structure declared \<open>__packed\<close>, \<open>Struct False\<close> one with natural
  alignment. \<open>Extern\<close> is a type declared outside the two headers; its size, like that
  of a pointer, depends on the target and is not known here.
\<close>

datatype ctype =
    U8
  | U16
  | U32
  | Array ctype nat
  | Struct bool "field list"
  | Union "field list"
  | Pointer ctype
  | Extern string
and field = Field string ctype

definition round_up :: "nat \<Rightarrow> nat \<Rightarrow> nat" where
  "round_up n a = ((n + a - 1) div a) * a"

text \<open>Offset just past the last member, from the (size, alignment) of each member.\<close>

fun struct_end :: "bool \<Rightarrow> nat \<Rightarrow> (nat \<times> nat) option list \<Rightarrow> nat option" where
  "struct_end packed off [] = Some off"
| "struct_end packed off (None # ls) = None"
| "struct_end packed off (Some (s, a) # ls) =
     struct_end packed (round_up off (if packed then 1 else a) + s) ls"

fun max_align :: "(nat \<times> nat) option list \<Rightarrow> nat option" where
  "max_align [] = Some 1"
| "max_align (None # ls) = None"
| "max_align (Some (s, a) # ls) = map_option (max a) (max_align ls)"

fun max_size :: "(nat \<times> nat) option list \<Rightarrow> nat option" where
  "max_size [] = Some 0"
| "max_size (None # ls) = None"
| "max_size (Some (s, a) # ls) = map_option (max s) (max_size ls)"

definition struct_layout :: "bool \<Rightarrow> (nat \<times> nat) option list \<Rightarrow> (nat \<times> nat) option" where
  "struct_layout packed ls =
     (case (struct_end packed 0 ls, max_align ls) of
        (Some e, Some a) \<Rightarrow>
          (let al = (if packed then 1 else a) in Some (round_up e al, al))
      | _ \<Rightarrow> None)"

definition union_layout :: "(nat \<times> nat) option list \<Rightarrow> (nat \<times> nat) option" where
  "union_layout ls =
     (case (max_size ls, max_align ls) of
        (Some s, Some a) \<Rightarrow> Some (round_up s a, a)
      | _ \<Rightarrow> None)"

text \<open>The (size, alignment) of a type, in bytes.\<close>

primrec type_layout :: "ctype \<Rightarrow> (nat \<times> nat) option"
  and field_layout :: "field \<Rightarrow> (nat \<times> nat) option" where
  "type_layout U8 = Some (1, 1)"
| "type_layout U16 = Some (2, 2)"
| "type_layout U32 = Some (4, 4)"
| "type_layout (Array t n) = map_option (\<lambda>(s, a). (s * n, a)) (type_layout t)"
| "type_layout (Struct packed fs) = struct_layout packed (map field_layout fs)"
| "type_layout (Union fs) = union_layout (map field_layout fs)"
| "type_layout (Pointer t) = None"
| "type_layout (Extern n) = None"
| "field_layout (Field n t) = type_layout t"

definition sizeof :: "ctype \<Rightarrow> nat option" where
  "sizeof t = map_option fst (type_layout t)"

definition alignof :: "ctype \<Rightarrow> nat option" where
  "alignof t = map_option snd (type_layout t)"

fun field_offset :: "bool \<Rightarrow> nat \<Rightarrow> field list \<Rightarrow> string \<Rightarrow> nat option" where
  "field_offset packed off [] m = None"
| "field_offset packed off (Field n t # fs) m =
     (case type_layout t of
        None \<Rightarrow> None
      | Some (s, a) \<Rightarrow>
          (let start = round_up off (if packed then 1 else a)
           in if n = m then Some start else field_offset packed (start + s) fs m))"

fun field_name :: "field \<Rightarrow> string" where
  "field_name (Field n t) = n"

fun field_type :: "field \<Rightarrow> ctype" where
  "field_type (Field n t) = t"

fun members :: "ctype \<Rightarrow> field list" where
  "members (Struct packed fs) = fs"
| "members (Union fs) = fs"
| "members t = []"

fun offsetof :: "ctype \<Rightarrow> string \<Rightarrow> nat option" where
  "offsetof (Struct packed fs) m = field_offset packed 0 fs m"
| "offsetof (Union fs) m = (if m \<in> set (map field_name fs) then Some 0 else None)"
| "offsetof t m = None"

text \<open>The type of the member called \<open>m\<close>.\<close>

fun lookup_field :: "field list \<Rightarrow> string \<Rightarrow> ctype option" where
  "lookup_field [] m = None"
| "lookup_field (Field n t # fs) m = (if n = m then Some t else lookup_field fs m)"

definition member_type :: "ctype \<Rightarrow> string \<Rightarrow> ctype option" where
  "member_type t m = lookup_field (members t) m"

section \<open>protocol.h\<close>



text \<open>How many data / feedback buffers IPTS uses.\<close>

definition IPTS_BUFFERS :: nat where
  "IPTS_BUFFERS = 16"

text \<open>Events that can be sent and received from the ME.\<close>

definition ipts_evt_code :: enum_decl where
  "ipts_evt_code =
     [(''IPTS_EVT_GET_DEVICE_INFO'', Some 1),
      (''IPTS_EVT_SET_MODE'', None),
      (''IPTS_EVT_SET_MEM_WINDOW'', None),
      (''IPTS_EVT_QUIESCE_IO'', None),
      (''IPTS_EVT_READY_FOR_DATA'', None),
      (''IPTS_EVT_FEEDBACK'', None),
      (''IPTS_EVT_CLEAR_MEM_WINDOW'', None),
      (''IPTS_EVT_NOTIFY_DEV_READY'', None)]"

text \<open>
  \<open>IPTS_CMD(COMMAND)\<close> pastes the token onto \<open>IPTS_EVT_\<close>; it names an enumerator or
  nothing. \<open>IPTS_RSP(COMMAND)\<close> adds the constant \<open>0x80000000\<close>, which has type
  unsigned int, so the sum is a 32-bit unsigned value.
\<close>

definition IPTS_CMD :: "string \<Rightarrow> int option" where
  "IPTS_CMD COMMAND = map_of (enum_constants ipts_evt_code) (''IPTS_EVT_'' @ COMMAND)"

definition IPTS_RSP :: "string \<Rightarrow> 32 word option" where
  "IPTS_RSP COMMAND = map_option (\<lambda>c. word_of_int c + 0x80000000) (IPTS_CMD COMMAND)"

text \<open>Status codes that are returned from the ME.\<close>

definition ipts_me_status :: enum_decl where
  "ipts_me_status =
     [(''IPTS_ME_STATUS_SUCCESS'', Some 0),
      (''IPTS_ME_STATUS_INVALID_PARAMS'', None),
      (''IPTS_ME_STATUS_ACCESS_DENIED'', None),
      (''IPTS_ME_STATUS_CMD_SIZE_ERROR'', None),
      (''IPTS_ME_STATUS_NOT_READY'', None),
      (''IPTS_ME_STATUS_REQUEST_OUTSTANDING'', None),
      (''IPTS_ME_STATUS_NO_SENSOR_FOUND'', None),
      (''IPTS_ME_STATUS_OUT_OF_MEMORY'', None),
      (''IPTS_ME_STATUS_INTERNAL_ERROR'', None),
      (''IPTS_ME_STATUS_SENSOR_DISABLED'', None),
      (''IPTS_ME_STATUS_COMPAT_CHECK_FAIL'', None),
      (''IPTS_ME_STATUS_SENSOR_EXPECTED_RESET'', None),
      (''IPTS_ME_STATUS_SENSOR_UNEXPECTED_RESET'', None),
      (''IPTS_ME_STATUS_RESET_FAILED'', None),
      (''IPTS_ME_STATUS_TIMEOUT'', None),
      (''IPTS_ME_STATUS_TEST_MODE_FAIL'', None),
      (''IPTS_ME_STATUS_SENSOR_FAIL_FATAL'', None),
      (''IPTS_ME_STATUS_SENSOR_FAIL_NONFATAL'', None),
      (''IPTS_ME_STATUS_INVALID_DEVICE_CAPS'', None),
      (''IPTS_ME_STATUS_QUIESCE_IO_IN_PROGRESS'', None),
      (''IPTS_ME_STATUS_MAX'', None)]"

text \<open>The mode that IPTS will use.\<close>

definition ipts_sensor_mode :: enum_decl where
  "ipts_sensor_mode =
     [(''IPTS_SENSOR_MODE_SINGLETOUCH'', Some 0),
      (''IPTS_SENSOR_MODE_MULTITOUCH'', None)]"

text \<open>The parameters for the SET_MODE command.\<close>

definition ipts_set_mode_cmd :: ctype where
  "ipts_set_mode_cmd = Struct True
     [Field ''sensor_mode'' U32,
      Field ''reserved'' (Array U8 12)]"

text \<open>The parameters for the SET_MEM_WINDOW command.\<close>

definition ipts_set_mem_window_cmd :: ctype where
  "ipts_set_mem_window_cmd = Struct True
     [Field ''data_buffer_addr_lower'' (Array U32 IPTS_BUFFERS),
      Field ''data_buffer_addr_upper'' (Array U32 IPTS_BUFFERS),
      Field ''workqueue_addr_lower'' U32,
      Field ''workqueue_addr_upper'' U32,
      Field ''doorbell_addr_lower'' U32,
      Field ''doorbell_addr_upper'' U32,
      Field ''feedback_buffer_addr_lower'' (Array U32 IPTS_BUFFERS),
      Field ''feedback_buffer_addr_upper'' (Array U32 IPTS_BUFFERS),
      Field ''host2me_addr_lower'' U32,
      Field ''host2me_addr_upper'' U32,
      Field ''host2me_size'' U32,
      Field ''reserved1'' U8,
      Field ''workqueue_item_size'' U8,
      Field ''workqueue_size'' U16,
      Field ''reserved'' (Array U8 32)]"

text \<open>The parameters for the FEEDBACK command.\<close>

definition ipts_feedback_cmd :: ctype where
  "ipts_feedback_cmd = Struct True
     [Field ''buffer'' U32,
      Field ''transaction'' U32,
      Field ''reserved'' (Array U8 8)]"

text \<open>Commands are sent from the host to the ME.\<close>

definition ipts_command :: ctype where
  "ipts_command = Struct True
     [Field ''code'' U32,
      Field ''data'' (Union
        [Field ''set_mode'' ipts_set_mode_cmd,
         Field ''set_mem_window'' ipts_set_mem_window_cmd,
         Field ''feedback'' ipts_feedback_cmd])]"

text \<open>The data that is returned in response to the GET_DEVICE_INFO command.\<close>

definition ipts_device_info :: ctype where
  "ipts_device_info = Struct True
     [Field ''vendor_id'' U16,
      Field ''device_id'' U16,
      Field ''hw_rev'' U32,
      Field ''fw_rev'' U32,
      Field ''data_size'' U32,
      Field ''feedback_size'' U32,
      Field ''reserved'' (Array U8 24)]"

text \<open>Responses are sent from the ME to the host in reaction to a command.\<close>

definition ipts_response :: ctype where
  "ipts_response = Struct True
     [Field ''code'' U32,
      Field ''status'' U32,
      Field ''data'' (Union
        [Field ''device_info'' ipts_device_info,
         Field ''reserved'' (Array U8 80)])]"

section \<open>context.h\<close>

definition ipts_buffer_info :: ctype where
  "ipts_buffer_info = Struct False
     [Field ''address'' (Pointer U8),
      Field ''dma_address'' (Extern ''dma_addr_t'')]"

definition ipts_context :: ctype where
  "ipts_context = Struct False
     [Field ''cldev'' (Pointer (Extern ''struct mei_cl_device'')),
      Field ''dev'' (Pointer (Extern ''struct device'')),
      Field ''device_info'' (Extern ''struct ipts_get_device_info_rsp''),
      Field ''data'' (Array ipts_buffer_info IPTS_BUFFERS),
      Field ''doorbell'' ipts_buffer_info,
      Field ''feedback'' (Array ipts_buffer_info IPTS_BUFFERS),
      Field ''workqueue'' ipts_buffer_info,
      Field ''host2me'' ipts_buffer_info,
      Field ''ready'' U8]"

section \<open>Objects in memory\<close>

text \<open>
  An object of a structure type is the list of its bytes. A \<open>u32\<close> member occupies
  four of them from its offset, in the byte order of the machine; the headers fix
  none, so the order is a parameter.
\<close>

datatype byte_order = LittleEndian | BigEndian

fun u32_bytes :: "byte_order \<Rightarrow> 32 word \<Rightarrow> 8 word list" where
  "u32_bytes LittleEndian w =
     [ucast w, ucast (drop_bit 8 w), ucast (drop_bit 16 w), ucast (drop_bit 24 w)]"
| "u32_bytes BigEndian w =
     [ucast (drop_bit 24 w), ucast (drop_bit 16 w), ucast (drop_bit 8 w), ucast w]"

fun u32_of_bytes :: "byte_order \<Rightarrow> 8 word list \<Rightarrow> 32 word option" where
  "u32_of_bytes LittleEndian [b0, b1, b2, b3] =
     Some (ucast b0 OR push_bit 8 (ucast b1) OR push_bit 16 (ucast b2)
           OR push_bit 24 (ucast b3))"
| "u32_of_bytes BigEndian [b3, b2, b1, b0] =
     Some (ucast b0 OR push_bit 8 (ucast b1) OR push_bit 16 (ucast b2)
           OR push_bit 24 (ucast b3))"
| "u32_of_bytes bo bs = None"

text \<open>
  Assignment to, and read of, the \<open>u32\<close> member \<open>m\<close> of an object \<open>obj\<close> of type
  \<open>t\<close>. Both are undefined (\<open>None\<close>) when \<open>t\<close> has no such member or the object is
  shorter than the member's end.
\<close>

definition store_u32 ::
  "byte_order \<Rightarrow> ctype \<Rightarrow> string \<Rightarrow> 32 word \<Rightarrow> 8 word list \<Rightarrow> 8 word list option" where
  "store_u32 bo t m v obj =
     (case (offsetof t m, member_type t m) of
        (Some off, Some U32) \<Rightarrow>
          (if off + 4 \<le> length obj
           then Some (take off obj @ u32_bytes bo v @ drop (off + 4) obj)
           else None)
      | _ \<Rightarrow> None)"

definition load_u32 ::
  "byte_order \<Rightarrow> ctype \<Rightarrow> string \<Rightarrow> 8 word list \<Rightarrow> 32 word option" where
  "load_u32 bo t m obj =
     (case (offsetof t m, member_type t m) of
        (Some off, Some U32) \<Rightarrow>
          (if off + 4 \<le> length obj
           then u32_of_bytes bo (take 4 (drop off obj))
           else None)
      | _ \<Rightarrow> None)"

text \<open>The value of an enumerator, converted to the \<open>u32\<close> it is stored in.\<close>

definition enum_value :: "enum_decl \<Rightarrow> string \<Rightarrow> int option" where
  "enum_value d n = map_of (enum_constants d) n"

definition enum_u32 :: "enum_decl \<Rightarrow> string \<Rightarrow> 32 word option" where
  "enum_u32 d n = map_option word_of_int (enum_value d n)"

section \<open>Reading the declarations\<close>

fun strip_prefix :: "string \<Rightarrow> string \<Rightarrow> string option" where
  "strip_prefix [] s = Some s"
| "strip_prefix (p # ps) [] = None"
| "strip_prefix (p # ps) (c # cs) = (if p = c then strip_prefix ps cs else None)"

definition strip_suffix :: "string \<Rightarrow> string \<Rightarrow> string option" where
  "strip_suffix suf s = map_option rev (strip_prefix (rev suf) (rev s))"

text \<open>
  The members \<open>x_addr_lower\<close> that have a partner \<open>x_addr_upper\<close> of the same type,
  as pairs of \<open>x\<close> and that type, in declaration order.
\<close>

fun addr_halves :: "field list \<Rightarrow> field list \<Rightarrow> (string \<times> ctype) list" where
  "addr_halves all [] = []"
| "addr_halves all (Field n t # fs) =
     (case strip_suffix ''_addr_lower'' n of
        None \<Rightarrow> addr_halves all fs
      | Some b \<Rightarrow>
          (if lookup_field all (b @ ''_addr_upper'') = Some t
           then (b, t) # addr_halves all fs
           else addr_halves all fs))"

definition address_pairs :: "ctype \<Rightarrow> (string \<times> ctype) list" where
  "address_pairs t = addr_halves (members t) (members t)"

fun names_with_type :: "ctype \<Rightarrow> (string \<times> ctype) list \<Rightarrow> string list" where
  "names_with_type u [] = []"
| "names_with_type u ((n, t) # ps) =
     (if t = u then n # names_with_type u ps else names_with_type u ps)"

text \<open>The address pairs made of two single \<open>u32\<close> values, and those made of arrays.\<close>

definition singleton_address_pairs :: "ctype \<Rightarrow> string list" where
  "singleton_address_pairs t = names_with_type U32 (address_pairs t)"

definition array_address_pairs :: "ctype \<Rightarrow> nat \<Rightarrow> string list" where
  "array_address_pairs t n = names_with_type (Array U32 n) (address_pairs t)"

text \<open>The names of the members of \<open>t\<close> whose type is \<open>u\<close>.\<close>

fun named_fields :: "field list \<Rightarrow> (string \<times> ctype) list" where
  "named_fields [] = []"
| "named_fields (Field n t # fs) = (n, t) # named_fields fs"

definition members_of_type :: "ctype \<Rightarrow> ctype \<Rightarrow> string list" where
  "members_of_type t u = names_with_type u (named_fields (members t))"

text \<open>The names of the members of \<open>t\<close> that end in \<open>suf\<close>.\<close>

fun names_with_suffix :: "string \<Rightarrow> field list \<Rightarrow> string list" where
  "names_with_suffix suf [] = []"
| "names_with_suffix suf (Field n t # fs) =
     (case strip_suffix suf n of
        None \<Rightarrow> names_with_suffix suf fs
      | Some b \<Rightarrow> n # names_with_suffix suf fs)"

definition members_with_suffix :: "string \<Rightarrow> ctype \<Rightarrow> string list" where
  "members_with_suffix suf t = names_with_suffix suf (members t)"

text \<open>Whether the type \<open>u\<close> is \<open>t\<close> or a type \<open>t\<close> is built from.\<close>

primrec occurs :: "ctype \<Rightarrow> ctype \<Rightarrow> bool"
  and occurs_field :: "ctype \<Rightarrow> field \<Rightarrow> bool" where
  "occurs u U8 = (u = U8)"
| "occurs u U16 = (u = U16)"
| "occurs u U32 = (u = U32)"
| "occurs u (Array t n) = (u = Array t n \<or> occurs u t)"
| "occurs u (Struct packed fs) = (u = Struct packed fs \<or> list_ex id (map (occurs_field u) fs))"
| "occurs u (Union fs) = (u = Union fs \<or> list_ex id (map (occurs_field u) fs))"
| "occurs u (Pointer t) = (u = Pointer t \<or> occurs u t)"
| "occurs u (Extern n) = (u = Extern n)"
| "occurs_field u (Field n t) = occurs u t"

fun is_integer :: "ctype \<Rightarrow> bool" where
  "is_integer U8 = True"
| "is_integer U16 = True"
| "is_integer U32 = True"
| "is_integer t = False"

fun integer_fields :: "field list \<Rightarrow> field list" where
  "integer_fields [] = []"
| "integer_fields (Field n t # fs) =
     (if is_integer t then Field n t # integer_fields fs else integer_fields fs)"

definition integer_members :: "ctype \<Rightarrow> field list" where
  "integer_members t = integer_fields (members t)"

section \<open>Doorbell\<close>

text \<open>
  Modelled from the spec: the receiver's resolution of a doorbell value to a data buffer
  (the receiving code is not among the two headers): "computes index = doorbell_value
  mod 16". The doorbell is the unsigned integer of the SET_MEM_WINDOW comment, 32 bits
  wide, and 16 is \<open>IPTS_BUFFERS\<close>.
\<close>

definition buffer_index :: "32 word \<Rightarrow> nat" where
  "buffer_index d = unat d mod IPTS_BUFFERS"

section \<open>Buffer pool\<close>




section \<open>Wire format\<close>

lemmas layout_defs =
  sizeof_def alignof_def struct_layout_def union_layout_def round_up_def
  IPTS_BUFFERS_def

lemma sizeof_ipts_set_mode_cmd: "sizeof ipts_set_mode_cmd = Some 16"
  by (simp add: ipts_set_mode_cmd_def layout_defs)

lemma sizeof_ipts_set_mem_window_cmd: "sizeof ipts_set_mem_window_cmd = Some 320"
  by (simp add: ipts_set_mem_window_cmd_def layout_defs)

lemma sizeof_ipts_feedback_cmd: "sizeof ipts_feedback_cmd = Some 16"
  by (simp add: ipts_feedback_cmd_def layout_defs)

lemma sizeof_ipts_device_info: "sizeof ipts_device_info = Some 44"
  by (simp add: ipts_device_info_def layout_defs)

lemma layout_payloads:
  "type_layout ipts_set_mode_cmd = Some (16, 1)"
  "type_layout ipts_set_mem_window_cmd = Some (320, 1)"
  "type_layout ipts_feedback_cmd = Some (16, 1)"
  "type_layout ipts_device_info = Some (44, 1)"
  by (simp_all add: ipts_set_mode_cmd_def ipts_set_mem_window_cmd_def
        ipts_feedback_cmd_def ipts_device_info_def layout_defs)

lemma sizeof_ipts_command: "sizeof ipts_command = Some 324"
  by (simp add: ipts_command_def layout_payloads layout_defs)

lemma sizeof_ipts_response: "sizeof ipts_response = Some 88"
  by (simp add: ipts_response_def layout_payloads layout_defs)

text \<open>
  C1. The sizes the headers assert: the command is 324 bytes, the response 88, the
  SET_MODE parameters 16, the SET_MEM_WINDOW parameters 320, the FEEDBACK parameters 16
  and the device info 44.
\<close>

theorem wire_structure_sizes:
  "sizeof ipts_command = Some 324 \<and>
   sizeof ipts_response = Some 88 \<and>
   sizeof ipts_set_mode_cmd = Some 16 \<and>
   sizeof ipts_set_mem_window_cmd = Some 320 \<and>
   sizeof ipts_feedback_cmd = Some 16 \<and>
   sizeof ipts_device_info = Some 44"
  by (simp add: sizeof_ipts_command sizeof_ipts_response sizeof_ipts_set_mode_cmd
        sizeof_ipts_set_mem_window_cmd sizeof_ipts_feedback_cmd sizeof_ipts_device_info)

section \<open>Codes\<close>

lemma ipts_evt_code_values:
  "enum_constants ipts_evt_code =
     [(''IPTS_EVT_GET_DEVICE_INFO'', 1),
      (''IPTS_EVT_SET_MODE'', 2),
      (''IPTS_EVT_SET_MEM_WINDOW'', 3),
      (''IPTS_EVT_QUIESCE_IO'', 4),
      (''IPTS_EVT_READY_FOR_DATA'', 5),
      (''IPTS_EVT_FEEDBACK'', 6),
      (''IPTS_EVT_CLEAR_MEM_WINDOW'', 7),
      (''IPTS_EVT_NOTIFY_DEV_READY'', 8)]"
  by (simp add: enum_constants_def ipts_evt_code_def)

text \<open>
  C5. The eight command codes are 1 to 8 in the order GET_DEVICE_INFO, SET_MODE,
  SET_MEM_WINDOW, QUIESCE_IO, READY_FOR_DATA, FEEDBACK, CLEAR_MEM_WINDOW,
  NOTIFY_DEV_READY.
\<close>

theorem command_codes:
  "enum_constants ipts_evt_code =
     [(''IPTS_EVT_GET_DEVICE_INFO'', 1),
      (''IPTS_EVT_SET_MODE'', 2),
      (''IPTS_EVT_SET_MEM_WINDOW'', 3),
      (''IPTS_EVT_QUIESCE_IO'', 4),
      (''IPTS_EVT_READY_FOR_DATA'', 5),
      (''IPTS_EVT_FEEDBACK'', 6),
      (''IPTS_EVT_CLEAR_MEM_WINDOW'', 7),
      (''IPTS_EVT_NOTIFY_DEV_READY'', 8)]"
  by (rule ipts_evt_code_values)

text \<open>
  C6. The twenty status codes are 0 to 19 in the order of the enumeration, from SUCCESS
  = 0 to QUIESCE_IO_IN_PROGRESS = 19; the closing enumerator MAX is their number, 20.
\<close>

theorem status_codes:
  "enum_constants ipts_me_status =
     [(''IPTS_ME_STATUS_SUCCESS'', 0),
      (''IPTS_ME_STATUS_INVALID_PARAMS'', 1),
      (''IPTS_ME_STATUS_ACCESS_DENIED'', 2),
      (''IPTS_ME_STATUS_CMD_SIZE_ERROR'', 3),
      (''IPTS_ME_STATUS_NOT_READY'', 4),
      (''IPTS_ME_STATUS_REQUEST_OUTSTANDING'', 5),
      (''IPTS_ME_STATUS_NO_SENSOR_FOUND'', 6),
      (''IPTS_ME_STATUS_OUT_OF_MEMORY'', 7),
      (''IPTS_ME_STATUS_INTERNAL_ERROR'', 8),
      (''IPTS_ME_STATUS_SENSOR_DISABLED'', 9),
      (''IPTS_ME_STATUS_COMPAT_CHECK_FAIL'', 10),
      (''IPTS_ME_STATUS_SENSOR_EXPECTED_RESET'', 11),
      (''IPTS_ME_STATUS_SENSOR_UNEXPECTED_RESET'', 12),
      (''IPTS_ME_STATUS_RESET_FAILED'', 13),
      (''IPTS_ME_STATUS_TIMEOUT'', 14),
      (''IPTS_ME_STATUS_TEST_MODE_FAIL'', 15),
      (''IPTS_ME_STATUS_SENSOR_FAIL_FATAL'', 16),
      (''IPTS_ME_STATUS_SENSOR_FAIL_NONFATAL'', 17),
      (''IPTS_ME_STATUS_INVALID_DEVICE_CAPS'', 18),
      (''IPTS_ME_STATUS_QUIESCE_IO_IN_PROGRESS'', 19),
      (''IPTS_ME_STATUS_MAX'', 20)]"
  by (simp add: enum_constants_def ipts_me_status_def)

lemma IPTS_CMD_eval:
  "IPTS_CMD ''GET_DEVICE_INFO'' = Some 1"
  "IPTS_CMD ''SET_MODE'' = Some 2"
  "IPTS_CMD ''SET_MEM_WINDOW'' = Some 3"
  "IPTS_CMD ''QUIESCE_IO'' = Some 4"
  "IPTS_CMD ''READY_FOR_DATA'' = Some 5"
  "IPTS_CMD ''FEEDBACK'' = Some 6"
  "IPTS_CMD ''CLEAR_MEM_WINDOW'' = Some 7"
  "IPTS_CMD ''NOTIFY_DEV_READY'' = Some 8"
  by (simp_all add: IPTS_CMD_def ipts_evt_code_values)

lemma IPTS_CMD_onto:
  assumes "1 \<le> c" and "c \<le> 8"
  shows "\<exists>n. IPTS_CMD n = Some c"
proof -
  from assms consider "c = 1" | "c = 2" | "c = 3" | "c = 4"
    | "c = 5" | "c = 6" | "c = 7" | "c = 8"
    by linarith
  then show ?thesis
  proof cases
    case 1 then show ?thesis using IPTS_CMD_eval(1) by blast
  next
    case 2 then show ?thesis using IPTS_CMD_eval(2) by blast
  next
    case 3 then show ?thesis using IPTS_CMD_eval(3) by blast
  next
    case 4 then show ?thesis using IPTS_CMD_eval(4) by blast
  next
    case 5 then show ?thesis using IPTS_CMD_eval(5) by blast
  next
    case 6 then show ?thesis using IPTS_CMD_eval(6) by blast
  next
    case 7 then show ?thesis using IPTS_CMD_eval(7) by blast
  next
    case 8 then show ?thesis using IPTS_CMD_eval(8) by blast
  qed
qed

text \<open>The sum \<open>c + 0x80000000\<close> does not wrap for a command code.\<close>

lemma rsp_uint:
  "1 \<le> c \<Longrightarrow> c \<le> 8 \<Longrightarrow> uint (word_of_int c + 0x80000000 :: 32 word) = c + 0x80000000"
  by (simp add: uint_word_ariths uint_word_of_int take_bit_int_eq_self)

text \<open>
  C2. For every command code \<open>c\<close> from 1 to 8 there is a command with that code, and
  the response code \<open>IPTS_RSP\<close> of any command with code \<open>c\<close> is \<open>c + 0x80000000\<close>,
  read as an unsigned 32-bit value.
\<close>

theorem response_code:
  assumes "1 \<le> c" and "c \<le> 8"
  shows "(\<exists>n. IPTS_CMD n = Some c) \<and>
         (\<forall>n. IPTS_CMD n = Some c \<longrightarrow>
              map_option uint (IPTS_RSP n) = Some (c + 0x80000000))"
  using assms by (simp add: IPTS_CMD_onto IPTS_RSP_def rsp_uint)

theorem response_code_witness:
  "(1::int) \<le> 6 \<and> (6::int) \<le> 8 \<and> IPTS_CMD ''FEEDBACK'' = Some 6 \<and>
   map_option uint (IPTS_RSP ''FEEDBACK'') = Some 0x80000006"
  using response_code [of 6] by (simp add: IPTS_CMD_eval)

section \<open>Doorbell and buffers\<close>

text \<open>
  Counting the doorbell up by one moves the index to the next buffer, also where the
  32-bit counter itself wraps, since 16 divides \<open>2 ^ 32\<close>.
\<close>

lemma buffer_index_succ: "buffer_index (d + 1) = (buffer_index d + 1) mod 16"
proof -
  have "unat (d + 1) = (unat d + 1) mod 2 ^ 32"
    by (simp add: unat_word_ariths)
  moreover have "(16::nat) dvd 2 ^ 32" by simp
  ultimately have "unat (d + 1) mod 16 = (unat d + 1) mod 16"
    by (simp add: mod_mod_cancel)
  then show ?thesis
    by (simp add: buffer_index_def IPTS_BUFFERS_def mod_Suc_eq)
qed

text \<open>
  C3. The buffer index of a doorbell value \<open>d\<close> is \<open>d mod 16\<close>: it is below the number
  of buffers, 16 gives 0 and 17 gives 1, and a step of the doorbell is a step of the
  index modulo 16.
\<close>

theorem doorbell_buffer_index:
  "buffer_index d = unat d mod 16 \<and> buffer_index d < IPTS_BUFFERS \<and>
   buffer_index 16 = 0 \<and> buffer_index 17 = 1 \<and>
   buffer_index (d + 1) = (buffer_index d + 1) mod 16"
  by (simp add: buffer_index_succ) (simp add: buffer_index_def IPTS_BUFFERS_def)

subsection \<open>The memory window and the context\<close>

lemma window_address_pairs:
  "address_pairs ipts_set_mem_window_cmd =
     [(''data_buffer'', Array U32 16), (''workqueue'', U32), (''doorbell'', U32),
      (''feedback_buffer'', Array U32 16), (''host2me'', U32)]"
  by (simp add: address_pairs_def ipts_set_mem_window_cmd_def strip_suffix_def
        IPTS_BUFFERS_def)

lemma window_singleton_pairs:
  "singleton_address_pairs ipts_set_mem_window_cmd =
     [''workqueue'', ''doorbell'', ''host2me'']"
  by (simp add: singleton_address_pairs_def window_address_pairs)

lemma window_array_pairs:
  "array_address_pairs ipts_set_mem_window_cmd IPTS_BUFFERS =
     [''data_buffer'', ''feedback_buffer'']"
  by (simp add: array_address_pairs_def window_address_pairs IPTS_BUFFERS_def)

lemma window_size_members:
  "members_with_suffix ''_size'' ipts_set_mem_window_cmd =
     [''host2me_size'', ''workqueue_item_size'', ''workqueue_size'']"
  "member_type ipts_set_mem_window_cmd ''workqueue_item_size'' = Some U8"
  "member_type ipts_set_mem_window_cmd ''workqueue_size'' = Some U16"
  "member_type ipts_set_mem_window_cmd ''host2me_size'' = Some U32"
  by (simp_all add: members_with_suffix_def member_type_def ipts_set_mem_window_cmd_def
        strip_suffix_def)

lemma context_buffers:
  "members_of_type ipts_context (Array ipts_buffer_info IPTS_BUFFERS) = [''data'', ''feedback'']"
  "members_of_type ipts_context ipts_buffer_info = [''doorbell'', ''workqueue'', ''host2me'']"
  by (simp_all add: members_of_type_def ipts_context_def ipts_buffer_info_def
        IPTS_BUFFERS_def)

lemma context_member_names:
  "map field_name (members ipts_context) =
     [''cldev'', ''dev'', ''device_info'', ''data'', ''doorbell'', ''feedback'',
      ''workqueue'', ''host2me'', ''ready'']"
  by (simp add: ipts_context_def)

lemma context_member_types:
  "member_type ipts_context ''cldev'' = Some (Pointer (Extern ''struct mei_cl_device''))"
  "member_type ipts_context ''dev'' = Some (Pointer (Extern ''struct device''))"
  "member_type ipts_context ''device_info'' =
     Some (Extern ''struct ipts_get_device_info_rsp'')"
  "member_type ipts_context ''data'' = Some (Array ipts_buffer_info 16)"
  "member_type ipts_context ''feedback'' = Some (Array ipts_buffer_info 16)"
  "member_type ipts_context ''ready'' = Some U8"
  by (simp_all add: member_type_def ipts_context_def IPTS_BUFFERS_def)

lemma buffer_info_members:
  "members ipts_buffer_info =
     [Field ''address'' (Pointer U8), Field ''dma_address'' (Extern ''dma_addr_t'')]"
  by (simp add: ipts_buffer_info_def)

lemma context_integer_members: "integer_members ipts_context = [Field ''ready'' U8]"
  by (simp add: integer_members_def ipts_context_def ipts_buffer_info_def)

lemma context_no_u32: "members_of_type ipts_context U32 = []"
  by (simp add: members_of_type_def ipts_context_def ipts_buffer_info_def)

lemma context_no_window: "\<not> occurs ipts_set_mem_window_cmd ipts_context"
  by (simp add: ipts_context_def ipts_buffer_info_def ipts_set_mem_window_cmd_def)


text \<open>
  C4, as the claim has it: the memory window would carry address pairs for four
  singleton buffers. It carries three, for the three singleton buffers of the context.
\<close>

theorem window_four_singletons_counterexample:
  "length (singleton_address_pairs ipts_set_mem_window_cmd) \<noteq> 4 \<and>
   length (members_of_type ipts_context ipts_buffer_info) \<noteq> 4"
  by (simp add: window_singleton_pairs context_buffers)

text \<open>
  C4, amended. The SET_MEM_WINDOW parameters hold a lower and an upper 32-bit half of
  an address for every buffer of the context: arrays of \<open>IPTS_BUFFERS\<close> = 16 lower and
  16 upper halves for the data buffers and for the feedback buffers, and one pair each
  for the three singleton buffers (workqueue, doorbell, host2me); with them the members
  \<open>host2me_size\<close>, \<open>workqueue_item_size\<close> and \<open>workqueue_size\<close>.
\<close>

theorem window_addresses:
  "address_pairs ipts_set_mem_window_cmd =
     [(''data_buffer'', Array U32 16), (''workqueue'', U32), (''doorbell'', U32),
      (''feedback_buffer'', Array U32 16), (''host2me'', U32)] \<and>
   array_address_pairs ipts_set_mem_window_cmd IPTS_BUFFERS =
     [''data_buffer'', ''feedback_buffer''] \<and>
   members_of_type ipts_context (Array ipts_buffer_info IPTS_BUFFERS) =
     [''data'', ''feedback''] \<and>
   singleton_address_pairs ipts_set_mem_window_cmd =
     [''workqueue'', ''doorbell'', ''host2me''] \<and>
   set (singleton_address_pairs ipts_set_mem_window_cmd) =
     set (members_of_type ipts_context ipts_buffer_info) \<and>
   members_with_suffix ''_size'' ipts_set_mem_window_cmd =
     [''host2me_size'', ''workqueue_item_size'', ''workqueue_size''] \<and>
   member_type ipts_set_mem_window_cmd ''workqueue_item_size'' = Some U8 \<and>
   member_type ipts_set_mem_window_cmd ''workqueue_size'' = Some U16"
  by (simp add: window_address_pairs window_array_pairs window_singleton_pairs
        window_size_members context_buffers insert_commute)




text \<open>
  C8, as the claim has it: the context would hold the memory window and the
  last-observed doorbell value. No type the context is built from is the
  SET_MEM_WINDOW parameters, and no member of it is a 32-bit integer.
\<close>

theorem context_window_doorbell_counterexample:
  "\<not> occurs ipts_set_mem_window_cmd ipts_context \<and>
   members_of_type ipts_context U32 = []"
  by (simp add: context_no_window context_no_u32)

text \<open>
  C8, amended. The context holds the device handle \<open>cldev\<close> and the device pointer
  \<open>dev\<close>, the device info, the buffer pool (16 data buffers, 16 feedback buffers, the
  doorbell, workqueue and host2me buffers, each a host address and a DMA address) and,
  as its only integer member, the one-byte flag \<open>ready\<close>.
\<close>

theorem context_members:
  "map field_name (members ipts_context) =
     [''cldev'', ''dev'', ''device_info'', ''data'', ''doorbell'', ''feedback'',
      ''workqueue'', ''host2me'', ''ready''] \<and>
   member_type ipts_context ''cldev'' = Some (Pointer (Extern ''struct mei_cl_device'')) \<and>
   member_type ipts_context ''dev'' = Some (Pointer (Extern ''struct device'')) \<and>
   member_type ipts_context ''device_info'' =
     Some (Extern ''struct ipts_get_device_info_rsp'') \<and>
   members_of_type ipts_context (Array ipts_buffer_info 16) = [''data'', ''feedback''] \<and>
   members_of_type ipts_context ipts_buffer_info =
     [''doorbell'', ''workqueue'', ''host2me''] \<and>
   members ipts_buffer_info =
     [Field ''address'' (Pointer U8), Field ''dma_address'' (Extern ''dma_addr_t'')] \<and>
   integer_members ipts_context = [Field ''ready'' U8]"
  using context_buffers
  by (simp add: context_member_names context_member_types buffer_info_members
        context_integer_members IPTS_BUFFERS_def)

section \<open>Payloads in memory\<close>

lemma u32_join_split:
  fixes w :: "32 word"
  shows "(ucast (ucast w :: 8 word) OR push_bit 8 (ucast (ucast (drop_bit 8 w) :: 8 word))
       OR push_bit 16 (ucast (ucast (drop_bit 16 w) :: 8 word))
       OR push_bit 24 (ucast (ucast (drop_bit 24 w) :: 8 word)) :: 32 word) = w"
    (is "?j = w")
proof (rule bit_word_eqI)
  fix n :: nat
  assume "n < LENGTH(32)"
  then have n: "n < 32" by simp
  consider "n < 8" | "8 \<le> n" "n < 16" | "16 \<le> n" "n < 24" | "24 \<le> n"
    by linarith
  then show "bit ?j n = bit w n"
    using n by cases (auto simp add: bit_simps)
qed

lemma u32_of_bytes_u32_bytes: "u32_of_bytes bo (u32_bytes bo w) = Some w"
  by (cases bo) (simp_all add: u32_join_split)

lemma length_u32_bytes: "length (u32_bytes bo w) = 4"
  by (cases bo) simp_all

lemma take4_store: "take 4 (u32_bytes bo v @ xs) = u32_bytes bo v"
  by (simp add: length_u32_bytes)

lemma drop4_store: "drop 4 (u32_bytes bo v @ xs) = xs"
  by (simp add: length_u32_bytes)

lemma set_mode_members:
  "offsetof ipts_set_mode_cmd ''sensor_mode'' = Some 0"
  "member_type ipts_set_mode_cmd ''sensor_mode'' = Some U32"
  "offsetof ipts_set_mode_cmd ''reserved'' = Some 4"
  "member_type ipts_set_mode_cmd ''reserved'' = Some (Array U8 12)"
  by (simp_all add: ipts_set_mode_cmd_def member_type_def round_up_def)

lemma feedback_members:
  "offsetof ipts_feedback_cmd ''buffer'' = Some 0"
  "member_type ipts_feedback_cmd ''buffer'' = Some U32"
  "offsetof ipts_feedback_cmd ''transaction'' = Some 4"
  "member_type ipts_feedback_cmd ''transaction'' = Some U32"
  "offsetof ipts_feedback_cmd ''reserved'' = Some 8"
  "member_type ipts_feedback_cmd ''reserved'' = Some (Array U8 8)"
  by (simp_all add: ipts_feedback_cmd_def member_type_def round_up_def)

lemma sensor_mode_values:
  "enum_u32 ipts_sensor_mode ''IPTS_SENSOR_MODE_SINGLETOUCH'' = Some 0"
  "enum_u32 ipts_sensor_mode ''IPTS_SENSOR_MODE_MULTITOUCH'' = Some 1"
  by (simp_all add: enum_u32_def enum_value_def enum_constants_def ipts_sensor_mode_def)

lemma store_sensor_mode:
  "4 \<le> length obj \<Longrightarrow>
   store_u32 bo ipts_set_mode_cmd ''sensor_mode'' v obj = Some (u32_bytes bo v @ drop 4 obj)"
  by (simp add: store_u32_def set_mode_members)

lemma store_buffer:
  "4 \<le> length obj \<Longrightarrow>
   store_u32 bo ipts_feedback_cmd ''buffer'' v obj = Some (u32_bytes bo v @ drop 4 obj)"
  by (simp add: store_u32_def feedback_members)

lemma store_transaction:
  "8 \<le> length obj \<Longrightarrow>
   store_u32 bo ipts_feedback_cmd ''transaction'' v obj =
     Some (take 4 obj @ u32_bytes bo v @ drop 8 obj)"
  by (simp add: store_u32_def feedback_members)

lemma load_buffer:
  "4 \<le> length obj \<Longrightarrow>
   load_u32 bo ipts_feedback_cmd ''buffer'' obj = u32_of_bytes bo (take 4 obj)"
  by (simp add: load_u32_def feedback_members)

lemma load_transaction:
  "8 \<le> length obj \<Longrightarrow>
   load_u32 bo ipts_feedback_cmd ''transaction'' obj =
     u32_of_bytes bo (take 4 (drop 4 obj))"
  by (simp add: load_u32_def feedback_members)

text \<open>
  C9. SINGLETOUCH is the 32-bit value 0 and MULTITOUCH the 32-bit value 1. The SET_MODE
  parameters are the 32-bit \<open>sensor_mode\<close> at offset 0 and twelve reserved bytes from
  offset 4, sixteen bytes in all. Assigning MULTITOUCH to \<open>sensor_mode\<close> in any
  16-byte object gives sixteen bytes whose first four read as the 32-bit value 1, in
  either byte order, and leaves the other twelve as they were.
\<close>

theorem sensor_mode_encoding:
  assumes "length obj = 16"
  shows "enum_u32 ipts_sensor_mode ''IPTS_SENSOR_MODE_SINGLETOUCH'' = Some 0 \<and>
         enum_u32 ipts_sensor_mode ''IPTS_SENSOR_MODE_MULTITOUCH'' = Some 1 \<and>
         offsetof ipts_set_mode_cmd ''sensor_mode'' = Some 0 \<and>
         member_type ipts_set_mode_cmd ''sensor_mode'' = Some U32 \<and>
         offsetof ipts_set_mode_cmd ''reserved'' = Some 4 \<and>
         member_type ipts_set_mode_cmd ''reserved'' = Some (Array U8 12) \<and>
         sizeof ipts_set_mode_cmd = Some 16 \<and>
         (\<exists>v p. enum_u32 ipts_sensor_mode ''IPTS_SENSOR_MODE_MULTITOUCH'' = Some v \<and>
                store_u32 bo ipts_set_mode_cmd ''sensor_mode'' v obj = Some p \<and>
                length p = 16 \<and>
                u32_of_bytes bo (take 4 p) = Some 1 \<and>
                drop 4 p = drop 4 obj)"
  using assms
  by (simp add: sensor_mode_values set_mode_members sizeof_ipts_set_mode_cmd
        store_sensor_mode take4_store drop4_store length_u32_bytes u32_of_bytes_u32_bytes)

theorem sensor_mode_encoding_witness:
  "length (replicate 16 (0 :: 8 word)) = 16 \<and>
   store_u32 LittleEndian ipts_set_mode_cmd ''sensor_mode'' 1 (replicate 16 0) =
     Some ([1, 0, 0, 0] @ replicate 12 0) \<and>
   u32_of_bytes LittleEndian [1, 0, 0, 0] = Some 1"
  using sensor_mode_encoding [of "replicate 16 0" LittleEndian]
  by (simp add: sensor_mode_values store_sensor_mode)

text \<open>
  C10. The FEEDBACK parameters are the 32-bit \<open>buffer\<close> at offset 0, the 32-bit
  \<open>transaction\<close> at offset 4 and eight reserved bytes from offset 8, sixteen bytes in
  all. Assigning \<open>b\<close> to \<open>buffer\<close> and \<open>t\<close> to \<open>transaction\<close> in any 16-byte object and
  reading the two members back returns \<open>b\<close> and \<open>t\<close>, in either byte order; the
  reserved bytes are untouched.
\<close>

theorem feedback_roundtrip:
  assumes "length obj = 16"
  shows "offsetof ipts_feedback_cmd ''buffer'' = Some 0 \<and>
         member_type ipts_feedback_cmd ''buffer'' = Some U32 \<and>
         offsetof ipts_feedback_cmd ''transaction'' = Some 4 \<and>
         member_type ipts_feedback_cmd ''transaction'' = Some U32 \<and>
         offsetof ipts_feedback_cmd ''reserved'' = Some 8 \<and>
         member_type ipts_feedback_cmd ''reserved'' = Some (Array U8 8) \<and>
         sizeof ipts_feedback_cmd = Some 16 \<and>
         (\<exists>p q. store_u32 bo ipts_feedback_cmd ''buffer'' b obj = Some p \<and>
                store_u32 bo ipts_feedback_cmd ''transaction'' t p = Some q \<and>
                length q = 16 \<and>
                load_u32 bo ipts_feedback_cmd ''buffer'' q = Some b \<and>
                load_u32 bo ipts_feedback_cmd ''transaction'' q = Some t \<and>
                drop 8 q = drop 8 obj)"
  using assms
  by (simp add: feedback_members sizeof_ipts_feedback_cmd store_buffer store_transaction
        load_buffer load_transaction take4_store drop4_store length_u32_bytes
        u32_of_bytes_u32_bytes)

theorem feedback_roundtrip_witness:
  "length (replicate 16 (0 :: 8 word)) = 16 \<and>
   store_u32 BigEndian ipts_feedback_cmd ''buffer'' 3 (replicate 16 0) =
     Some ([0, 0, 0, 3] @ replicate 12 0) \<and>
   store_u32 BigEndian ipts_feedback_cmd ''transaction'' 0x1234
       ([0, 0, 0, 3] @ replicate 12 0) =
     Some ([0, 0, 0, 3, 0, 0, 0x12, 0x34] @ replicate 8 0) \<and>
   load_u32 BigEndian ipts_feedback_cmd ''buffer''
       ([0, 0, 0, 3, 0, 0, 0x12, 0x34] @ replicate 8 0) = Some 3 \<and>
   load_u32 BigEndian ipts_feedback_cmd ''transaction''
       ([0, 0, 0, 3, 0, 0, 0x12, 0x34] @ replicate 8 0) = Some 0x1234"
  using feedback_roundtrip [of "replicate 16 0" BigEndian 3 "0x1234"]
  by (simp add: store_buffer store_transaction load_buffer load_transaction)

end
